theory Spec2Isabelle
  imports Complex_Main "HOL-Library.Word"
begin

unbundle bit_operations_syntax

section \<open>Data model\<close>

text \<open>
  The NEON backend of the fixed-point layer (\<^verbatim>\<open>internal/fixedpoint_neon.h\<close>) works on
  \<^verbatim>\<open>int32x4_t\<close>: four independent 32-bit two's-complement lanes. A lane is a
  \<open>32 word\<close>; \<open>sint\<close> reads it as a signed integer.
\<close>

type_synonym int32 = "32 word"

datatype int32x4 = Int32x4 int32 int32 int32 int32

text \<open>The comparison intrinsics return \<^verbatim>\<open>uint32x4_t\<close>, a distinct C type.\<close>

datatype uint32x4 = Uint32x4 "32 word" "32 word" "32 word" "32 word"

text \<open>A lane number, as the constant argument of \<^verbatim>\<open>vgetq_lane_s32\<close>: 0 to 3.\<close>

datatype lane = Lane0 | Lane1 | Lane2 | Lane3

fun vgetq_lane_s32 :: "int32x4 \<Rightarrow> lane \<Rightarrow> int32" where
  "vgetq_lane_s32 (Int32x4 a b c d) Lane0 = a"
| "vgetq_lane_s32 (Int32x4 a b c d) Lane1 = b"
| "vgetq_lane_s32 (Int32x4 a b c d) Lane2 = c"
| "vgetq_lane_s32 (Int32x4 a b c d) Lane3 = d"

definition int32_min :: int32 where
  "int32_min = - (2 ^ 31)"

definition int32_max :: int32 where
  "int32_max = 2 ^ 31 - 1"

text \<open>A mask lane is all-1 bits or all-0 bits.\<close>

definition all_ones :: int32 where
  "all_ones = NOT 0"

definition is_mask_lane :: "int32 \<Rightarrow> bool" where
  "is_mask_lane m = (m = all_ones \<or> m = 0)"

fun is_mask_vector :: "int32x4 \<Rightarrow> bool" where
  "is_mask_vector (Int32x4 a b c d) =
     (is_mask_lane a \<and> is_mask_lane b \<and> is_mask_lane c \<and> is_mask_lane d)"

section \<open>The NEON intrinsics used by the backend\<close>

text \<open>
  The intrinsics of \<^verbatim>\<open>arm_neon.h\<close> are the primitives of this program. Each is
  modelled by the operation its instruction performs on every lane, following the
  instruction pseudocode of the Arm architecture: arithmetic on unbounded integers
  (\<open>sint\<close> of the lanes), then truncation to 32 bits (\<open>word_of_int\<close>) or signed
  saturation.
\<close>

fun map_lanes :: "(int32 \<Rightarrow> int32) \<Rightarrow> int32x4 \<Rightarrow> int32x4" where
  "map_lanes f (Int32x4 a b c d) = Int32x4 (f a) (f b) (f c) (f d)"

fun map2_lanes :: "(int32 \<Rightarrow> int32 \<Rightarrow> int32) \<Rightarrow> int32x4 \<Rightarrow> int32x4 \<Rightarrow> int32x4" where
  "map2_lanes f (Int32x4 a0 a1 a2 a3) (Int32x4 b0 b1 b2 b3) =
     Int32x4 (f a0 b0) (f a1 b1) (f a2 b2) (f a3 b3)"

fun compare_lanes :: "(int32 \<Rightarrow> int32 \<Rightarrow> bool) \<Rightarrow> int32x4 \<Rightarrow> int32x4 \<Rightarrow> uint32x4" where
  "compare_lanes p (Int32x4 a0 a1 a2 a3) (Int32x4 b0 b1 b2 b3) =
     Uint32x4 (if p a0 b0 then NOT 0 else 0) (if p a1 b1 then NOT 0 else 0)
              (if p a2 b2 then NOT 0 else 0) (if p a3 b3 then NOT 0 else 0)"

definition vandq_s32 :: "int32x4 \<Rightarrow> int32x4 \<Rightarrow> int32x4" where
  "vandq_s32 a b = map2_lanes (\<lambda>x y. x AND y) a b"

definition vorrq_s32 :: "int32x4 \<Rightarrow> int32x4 \<Rightarrow> int32x4" where
  "vorrq_s32 a b = map2_lanes (\<lambda>x y. x OR y) a b"

definition veorq_s32 :: "int32x4 \<Rightarrow> int32x4 \<Rightarrow> int32x4" where
  "veorq_s32 a b = map2_lanes (\<lambda>x y. x XOR y) a b"

definition vdupq_n_s32 :: "int32 \<Rightarrow> int32x4" where
  "vdupq_n_s32 x = Int32x4 x x x x"

text \<open>VADD, VSUB and VNEG keep the low 32 bits of the exact result.\<close>

definition vaddq_s32 :: "int32x4 \<Rightarrow> int32x4 \<Rightarrow> int32x4" where
  "vaddq_s32 a b = map2_lanes (\<lambda>x y. word_of_int (sint x + sint y)) a b"

definition vsubq_s32 :: "int32x4 \<Rightarrow> int32x4 \<Rightarrow> int32x4" where
  "vsubq_s32 a b = map2_lanes (\<lambda>x y. word_of_int (sint x - sint y)) a b"

definition vnegq_s32 :: "int32x4 \<Rightarrow> int32x4" where
  "vnegq_s32 a = map_lanes (\<lambda>x. word_of_int (- sint x)) a"

text \<open>The comparisons are signed and give all-1 bits for true, all-0 bits for false.\<close>

definition vceqq_s32 :: "int32x4 \<Rightarrow> int32x4 \<Rightarrow> uint32x4" where
  "vceqq_s32 a b = compare_lanes (\<lambda>x y. x = y) a b"

definition vcgtq_s32 :: "int32x4 \<Rightarrow> int32x4 \<Rightarrow> uint32x4" where
  "vcgtq_s32 a b = compare_lanes (\<lambda>x y. sint x > sint y) a b"

definition vcgeq_s32 :: "int32x4 \<Rightarrow> int32x4 \<Rightarrow> uint32x4" where
  "vcgeq_s32 a b = compare_lanes (\<lambda>x y. sint x \<ge> sint y) a b"

definition vcltq_s32 :: "int32x4 \<Rightarrow> int32x4 \<Rightarrow> uint32x4" where
  "vcltq_s32 a b = compare_lanes (\<lambda>x y. sint x < sint y) a b"

definition vcleq_s32 :: "int32x4 \<Rightarrow> int32x4 \<Rightarrow> uint32x4" where
  "vcleq_s32 a b = compare_lanes (\<lambda>x y. sint x \<le> sint y) a b"

fun vreinterpretq_s32_u32 :: "uint32x4 \<Rightarrow> int32x4" where
  "vreinterpretq_s32_u32 (Uint32x4 a b c d) = Int32x4 a b c d"

text \<open>\<^verbatim>\<open>vst1q_s32(b, a)\<close> stores the four lanes into the array \<^verbatim>\<open>int32_t b[4]\<close>.\<close>

fun vst1q_s32 :: "int32x4 \<Rightarrow> int32 list" where
  "vst1q_s32 (Int32x4 a b c d) = [a, b, c, d]"

text \<open>VRHADD: \<^verbatim>\<open>(Int(op1) + Int(op2) + 1) >> 1\<close> on unbounded integers.\<close>

definition vrhaddq_s32 :: "int32x4 \<Rightarrow> int32x4 \<Rightarrow> int32x4" where
  "vrhaddq_s32 a b = map2_lanes (\<lambda>x y. word_of_int (drop_bit 1 (sint x + sint y + 1))) a b"

text \<open>
  \<^verbatim>\<open>SignedSatQ(i, 32)\<close>: the value clamped to the signed 32-bit range, and whether it
  was clamped (the instruction then sets the cumulative saturation flag QC).
\<close>

definition SignedSatQ :: "int \<Rightarrow> int32 \<times> bool" where
  "SignedSatQ i =
     (if i > 2 ^ 31 - 1 then (word_of_int (2 ^ 31 - 1), True)
      else if i < - (2 ^ 31) then (word_of_int (- (2 ^ 31)), True)
      else (word_of_int i, False))"

text \<open>VQRDMULH: \<^verbatim>\<open>SignedSatQ((2 * op1 * op2 + (1 << 31)) >> 32)\<close>.\<close>

definition vqrdmulhq_s32 :: "int32x4 \<Rightarrow> int32x4 \<Rightarrow> int32x4" where
  "vqrdmulhq_s32 a b =
     map2_lanes (\<lambda>x y. fst (SignedSatQ (drop_bit 32 (2 * sint x * sint y + 2 ^ 31)))) a b"

text \<open>
  The shifts by an immediate take a compile-time constant that must fit the
  instruction's encoding: 0 to 31 for \<^verbatim>\<open>vqshlq_n_s32\<close>, 1 to 32 for
  \<^verbatim>\<open>vrshrq_n_s32\<close>. A constant outside the range is rejected by the compiler; so
  is a template instantiation for which no specialization exists.
\<close>

datatype compile_error = ImmediateOutOfRange | NoSpecialization

text \<open>VQSHL (immediate): \<^verbatim>\<open>SignedSatQ(Int(op) << n)\<close>.\<close>

definition vqshlq_n_s32 :: "int32x4 \<Rightarrow> int \<Rightarrow> compile_error + int32x4" where
  "vqshlq_n_s32 x n =
     (if 0 \<le> n \<and> n \<le> 31
      then Inr (map_lanes (\<lambda>v. fst (SignedSatQ (push_bit (nat n) (sint v)))) x)
      else Inl ImmediateOutOfRange)"

text \<open>The QC flag after VQSHL: some lane was clamped.\<close>

fun vqshlq_n_s32_QC :: "int32x4 \<Rightarrow> int \<Rightarrow> bool" where
  "vqshlq_n_s32_QC (Int32x4 a b c d) n =
     (snd (SignedSatQ (push_bit (nat n) (sint a))) \<or> snd (SignedSatQ (push_bit (nat n) (sint b)))
      \<or> snd (SignedSatQ (push_bit (nat n) (sint c))) \<or> snd (SignedSatQ (push_bit (nat n) (sint d))))"

text \<open>VRSHR (immediate): \<^verbatim>\<open>(Int(op) + (1 << (n-1))) >> n\<close>, low 32 bits.\<close>

definition vrshrq_n_s32 :: "int32x4 \<Rightarrow> int \<Rightarrow> compile_error + int32x4" where
  "vrshrq_n_s32 x n =
     (if 1 \<le> n \<and> n \<le> 32
      then Inr (map_lanes (\<lambda>v. word_of_int (drop_bit (nat n) (sint v + 2 ^ (nat n - 1)))) x)
      else Inl ImmediateOutOfRange)"

section \<open>The NEON backend\<close>

text \<open>The specializations of \<^verbatim>\<open>fixedpoint_neon.h\<close> for \<^verbatim>\<open>int32x4_t\<close>, in source order.\<close>

definition BitAnd :: "int32x4 \<Rightarrow> int32x4 \<Rightarrow> int32x4" where
  "BitAnd a b = vandq_s32 a b"

definition BitOr :: "int32x4 \<Rightarrow> int32x4 \<Rightarrow> int32x4" where
  "BitOr a b = vorrq_s32 a b"

definition BitXor :: "int32x4 \<Rightarrow> int32x4 \<Rightarrow> int32x4" where
  "BitXor a b = veorq_s32 a b"

definition BitNot :: "int32x4 \<Rightarrow> int32x4" where
  "BitNot a = veorq_s32 a (vdupq_n_s32 (- 1))"

definition Add :: "int32x4 \<Rightarrow> int32x4 \<Rightarrow> int32x4" where
  "Add a b = vaddq_s32 a b"

definition Sub :: "int32x4 \<Rightarrow> int32x4 \<Rightarrow> int32x4" where
  "Sub a b = vsubq_s32 a b"

definition Neg :: "int32x4 \<Rightarrow> int32x4" where
  "Neg a = vnegq_s32 a"

definition SelectUsingMask :: "int32x4 \<Rightarrow> int32x4 \<Rightarrow> int32x4 \<Rightarrow> int32x4" where
  "SelectUsingMask if_mask then_val else_val =
     BitXor (BitAnd if_mask then_val) (BitAnd (BitNot if_mask) else_val)"

definition MaskIfEqual :: "int32x4 \<Rightarrow> int32x4 \<Rightarrow> int32x4" where
  "MaskIfEqual a b = vreinterpretq_s32_u32 (vceqq_s32 a b)"

definition MaskIfNotEqual :: "int32x4 \<Rightarrow> int32x4 \<Rightarrow> int32x4" where
  "MaskIfNotEqual a b = BitNot (MaskIfEqual a b)"

definition MaskIfZero :: "int32x4 \<Rightarrow> int32x4" where
  "MaskIfZero a = MaskIfEqual a (vdupq_n_s32 0)"

definition MaskIfNonZero :: "int32x4 \<Rightarrow> int32x4" where
  "MaskIfNonZero a = BitNot (MaskIfZero a)"

definition MaskIfGreaterThan :: "int32x4 \<Rightarrow> int32x4 \<Rightarrow> int32x4" where
  "MaskIfGreaterThan a b = vreinterpretq_s32_u32 (vcgtq_s32 a b)"

definition MaskIfGreaterThanOrEqual :: "int32x4 \<Rightarrow> int32x4 \<Rightarrow> int32x4" where
  "MaskIfGreaterThanOrEqual a b = vreinterpretq_s32_u32 (vcgeq_s32 a b)"

definition MaskIfLessThan :: "int32x4 \<Rightarrow> int32x4 \<Rightarrow> int32x4" where
  "MaskIfLessThan a b = vreinterpretq_s32_u32 (vcltq_s32 a b)"

definition MaskIfLessThanOrEqual :: "int32x4 \<Rightarrow> int32x4 \<Rightarrow> int32x4" where
  "MaskIfLessThanOrEqual a b = vreinterpretq_s32_u32 (vcleq_s32 a b)"

text \<open>
  \<^verbatim>\<open>b[0] && b[1] && b[2] && b[3]\<close>: an \<^verbatim>\<open>int32_t\<close> operand of \<^verbatim>\<open>&&\<close> counts as
  true when it is not zero.
\<close>

definition All_int32x4 :: "int32x4 \<Rightarrow> bool" where
  "All_int32x4 a =
     (let b = vst1q_s32 a in b ! 0 \<noteq> 0 \<and> b ! 1 \<noteq> 0 \<and> b ! 2 \<noteq> 0 \<and> b ! 3 \<noteq> 0)"

definition Any :: "int32x4 \<Rightarrow> bool" where
  "Any a =
     (let b = vst1q_s32 a in b ! 0 \<noteq> 0 \<or> b ! 1 \<noteq> 0 \<or> b ! 2 \<noteq> 0 \<or> b ! 3 \<noteq> 0)"

definition RoundingHalfSum :: "int32x4 \<Rightarrow> int32x4 \<Rightarrow> int32x4" where
  "RoundingHalfSum a b = vrhaddq_s32 a b"

definition SaturatingRoundingDoublingHighMul :: "int32x4 \<Rightarrow> int32x4 \<Rightarrow> int32x4" where
  "SaturatingRoundingDoublingHighMul a b = vqrdmulhq_s32 a b"

text \<open>
  \<^verbatim>\<open>ImplSaturatingRoundingMultiplyByPOT<Exponent, int32x4_t, 1>::eval\<close> and
  \<^verbatim>\<open>ImplSaturatingRoundingMultiplyByPOT<Exponent, int32x4_t, -1>::eval\<close>.
\<close>

definition ImplSaturatingRoundingMultiplyByPOT_pos :: "int \<Rightarrow> int32x4 \<Rightarrow> compile_error + int32x4" where
  "ImplSaturatingRoundingMultiplyByPOT_pos Exponent x = vqshlq_n_s32 x Exponent"

definition ImplSaturatingRoundingMultiplyByPOT_neg :: "int \<Rightarrow> int32x4 \<Rightarrow> compile_error + int32x4" where
  "ImplSaturatingRoundingMultiplyByPOT_neg Exponent x = vrshrq_n_s32 x (- Exponent)"

text \<open>
  Modelled from the spec: the entry point \<^verbatim>\<open>SaturatingRoundingMultiplyByPOT<Exponent>\<close>
  and the primary template, which pick a specialization by the sign of the exponent,
  are in \<^verbatim>\<open>fixedpoint.h\<close>, which is not among the sources. The third template argument
  of the two specializations above is that sign (1 and -1); this backend gives none
  for sign 0.
\<close>

definition SaturatingRoundingMultiplyByPOT :: "int \<Rightarrow> int32x4 \<Rightarrow> compile_error + int32x4" where
  "SaturatingRoundingMultiplyByPOT Exponent x =
     (if Exponent > 0 then ImplSaturatingRoundingMultiplyByPOT_pos Exponent x
      else if Exponent < 0 then ImplSaturatingRoundingMultiplyByPOT_neg Exponent x
      else Inl NoSpecialization)"

definition Dup :: "int32 \<Rightarrow> int32x4" where
  "Dup x = vdupq_n_s32 x"

section \<open>The scalar reference semantics\<close>

text \<open>
  The scalar backend (the generic templates and their \<^verbatim>\<open>int32_t\<close> specializations) is
  in \<^verbatim>\<open>fixedpoint.h\<close>, which is not among the sources. Each definition of this section
  follows the contract that section 4.1 of the specification gives for the operation,
  on one signed 32-bit lane. The specification writes \<open>round\<close> for rounding to nearest
  with ties toward positive infinity, which is \<^const>\<open>round\<close> on the reals:
  \<open>round x = \<lfloor>x + 1/2\<rfloor>\<close>.
\<close>

text \<open>Modelled from the spec: the scalar \<^verbatim>\<open>BitAnd\<close>, a standard bitwise operation.\<close>

definition scalar_BitAnd :: "int32 \<Rightarrow> int32 \<Rightarrow> int32" where
  "scalar_BitAnd a b = a AND b"

text \<open>Modelled from the spec: the scalar \<^verbatim>\<open>BitOr\<close>, a standard bitwise operation.\<close>

definition scalar_BitOr :: "int32 \<Rightarrow> int32 \<Rightarrow> int32" where
  "scalar_BitOr a b = a OR b"

text \<open>Modelled from the spec: the scalar \<^verbatim>\<open>BitXor\<close>, a standard bitwise operation.\<close>

definition scalar_BitXor :: "int32 \<Rightarrow> int32 \<Rightarrow> int32" where
  "scalar_BitXor a b = a XOR b"

text \<open>Modelled from the spec: the scalar \<^verbatim>\<open>BitNot\<close>, a standard bitwise operation.\<close>

definition scalar_BitNot :: "int32 \<Rightarrow> int32" where
  "scalar_BitNot a = NOT a"

text \<open>
  Modelled from the spec: the scalar \<^verbatim>\<open>Add\<close>, plain two's-complement wrap-around
  arithmetic, not saturating. This is addition of the word type.
\<close>

definition scalar_Add :: "int32 \<Rightarrow> int32 \<Rightarrow> int32" where
  "scalar_Add a b = a + b"

text \<open>Modelled from the spec: the scalar \<^verbatim>\<open>Sub\<close>, wrap-around like \<^verbatim>\<open>Add\<close>.\<close>

definition scalar_Sub :: "int32 \<Rightarrow> int32 \<Rightarrow> int32" where
  "scalar_Sub a b = a - b"

text \<open>Modelled from the spec: the scalar \<^verbatim>\<open>Neg\<close>, wrap-around like \<^verbatim>\<open>Add\<close>.\<close>

definition scalar_Neg :: "int32 \<Rightarrow> int32" where
  "scalar_Neg a = - a"

text \<open>
  Modelled from the spec: the scalar \<^verbatim>\<open>SelectUsingMask\<close>, implemented generically as
  \<^verbatim>\<open>(mask & then_val) | (~mask & else_val)\<close>.
\<close>

definition scalar_SelectUsingMask :: "int32 \<Rightarrow> int32 \<Rightarrow> int32 \<Rightarrow> int32" where
  "scalar_SelectUsingMask if_mask then_val else_val =
     ((if_mask AND then_val) OR (NOT if_mask AND else_val))"

text \<open>
  Modelled from the spec: the scalar \<^verbatim>\<open>MaskIfEqual\<close>. The comparisons are signed and
  return a mask: all-1 bits for true, all-0 bits for false.
\<close>

definition scalar_MaskIfEqual :: "int32 \<Rightarrow> int32 \<Rightarrow> int32" where
  "scalar_MaskIfEqual a b = (if a = b then all_ones else 0)"

text \<open>Modelled from the spec: the scalar \<^verbatim>\<open>MaskIfNotEqual\<close>.\<close>

definition scalar_MaskIfNotEqual :: "int32 \<Rightarrow> int32 \<Rightarrow> int32" where
  "scalar_MaskIfNotEqual a b = (if a \<noteq> b then all_ones else 0)"

text \<open>
  Modelled from the spec: the scalar \<^verbatim>\<open>MaskIfZero\<close>, which is \<^verbatim>\<open>MaskIfEqual\<close> against
  the zero value.
\<close>

definition scalar_MaskIfZero :: "int32 \<Rightarrow> int32" where
  "scalar_MaskIfZero a = scalar_MaskIfEqual a 0"

text \<open>
  Modelled from the spec: the scalar \<^verbatim>\<open>MaskIfNonZero\<close>, which is \<^verbatim>\<open>MaskIfNotEqual\<close>
  against the zero value.
\<close>

definition scalar_MaskIfNonZero :: "int32 \<Rightarrow> int32" where
  "scalar_MaskIfNonZero a = scalar_MaskIfNotEqual a 0"

text \<open>Modelled from the spec: the scalar \<^verbatim>\<open>MaskIfGreaterThan\<close>, a signed comparison.\<close>

definition scalar_MaskIfGreaterThan :: "int32 \<Rightarrow> int32 \<Rightarrow> int32" where
  "scalar_MaskIfGreaterThan a b = (if sint a > sint b then all_ones else 0)"

text \<open>Modelled from the spec: the scalar \<^verbatim>\<open>MaskIfGreaterThanOrEqual\<close>.\<close>

definition scalar_MaskIfGreaterThanOrEqual :: "int32 \<Rightarrow> int32 \<Rightarrow> int32" where
  "scalar_MaskIfGreaterThanOrEqual a b = (if sint a \<ge> sint b then all_ones else 0)"

text \<open>Modelled from the spec: the scalar \<^verbatim>\<open>MaskIfLessThan\<close>.\<close>

definition scalar_MaskIfLessThan :: "int32 \<Rightarrow> int32 \<Rightarrow> int32" where
  "scalar_MaskIfLessThan a b = (if sint a < sint b then all_ones else 0)"

text \<open>Modelled from the spec: the scalar \<^verbatim>\<open>MaskIfLessThanOrEqual\<close>.\<close>

definition scalar_MaskIfLessThanOrEqual :: "int32 \<Rightarrow> int32 \<Rightarrow> int32" where
  "scalar_MaskIfLessThanOrEqual a b = (if sint a \<le> sint b then all_ones else 0)"

text \<open>
  Modelled from the spec: the scalar \<^verbatim>\<open>RoundingHalfSum\<close>, the arithmetic mean rounded
  to nearest, ties toward positive infinity, without intermediate overflow; contract
  \<open>round ((a + b) / 2)\<close>.
\<close>

definition scalar_RoundingHalfSum :: "int32 \<Rightarrow> int32 \<Rightarrow> int32" where
  "scalar_RoundingHalfSum a b =
     word_of_int (round ((real_of_int (sint a) + real_of_int (sint b)) / 2))"

text \<open>
  Modelled from the spec: the scalar \<^verbatim>\<open>SaturatingRoundingDoublingHighMul\<close>,
  \<open>round (2 * a * b / 2 ^ bitwidth)\<close>, saturating to the maximum in the one case where
  both inputs are the minimum.
\<close>

definition scalar_SaturatingRoundingDoublingHighMul :: "int32 \<Rightarrow> int32 \<Rightarrow> int32" where
  "scalar_SaturatingRoundingDoublingHighMul a b =
     (if a = int32_min \<and> b = int32_min then int32_max
      else word_of_int (round (2 * real_of_int (sint a) * real_of_int (sint b) / 2 ^ 32)))"

text \<open>Modelled from the spec: clamping at the type's minimum and maximum.\<close>

definition clamp_int32 :: "int \<Rightarrow> int" where
  "clamp_int32 k = max (- (2 ^ 31)) (min (2 ^ 31 - 1) k)"

text \<open>Modelled from the spec: a saturating left shift, for a positive exponent.\<close>

definition saturating_shift_left :: "nat \<Rightarrow> int32 \<Rightarrow> int32" where
  "saturating_shift_left n x = word_of_int (clamp_int32 (sint x * 2 ^ n))"

text \<open>
  Modelled from the spec: a rounding right shift (to nearest, not truncation), for a
  negative exponent.
\<close>

definition rounding_shift_right :: "nat \<Rightarrow> int32 \<Rightarrow> int32" where
  "rounding_shift_right n x = word_of_int (round (real_of_int (sint x) / 2 ^ n))"

text \<open>
  Modelled from the spec: the scalar \<^verbatim>\<open>SaturatingRoundingMultiplyByPOT\<close>, multiplication
  by \<open>2 ^ Exponent\<close>. The contract leaves exponent 0 unspecified: \<open>None\<close>.
\<close>

definition scalar_SaturatingRoundingMultiplyByPOT :: "int \<Rightarrow> int32 \<Rightarrow> int32 option" where
  "scalar_SaturatingRoundingMultiplyByPOT Exponent x =
     (if Exponent > 0 then Some (saturating_shift_left (nat Exponent) x)
      else if Exponent < 0 then Some (rounding_shift_right (nat (- Exponent)) x)
      else None)"

text \<open>Modelled from the spec: the scalar \<^verbatim>\<open>Dup\<close>, the identity.\<close>

definition scalar_Dup :: "int32 \<Rightarrow> int32" where
  "scalar_Dup x = x"

text \<open>
  Modelled from the spec: two's-complement wrap-around, the representative of an
  integer modulo \<open>2^32\<close> in the signed 32-bit range.
\<close>

definition wrap_int32 :: "int \<Rightarrow> int" where
  "wrap_int32 k = (k + 2 ^ 31) mod 2 ^ 32 - 2 ^ 31"

section \<open>Auxiliary facts\<close>

subsection \<open>Lanes of the lane-wise intrinsics\<close>

lemma lane_map_lanes: "vgetq_lane_s32 (map_lanes f a) i = f (vgetq_lane_s32 a i)"
  by (cases a; cases i) simp_all

lemma lane_map2_lanes:
  "vgetq_lane_s32 (map2_lanes f a b) i = f (vgetq_lane_s32 a i) (vgetq_lane_s32 b i)"
  by (cases a; cases b; cases i) simp_all

lemma lane_compare_lanes:
  "vgetq_lane_s32 (vreinterpretq_s32_u32 (compare_lanes p a b)) i =
     (if p (vgetq_lane_s32 a i) (vgetq_lane_s32 b i) then NOT 0 else 0)"
  by (cases a; cases b; cases i) simp_all

lemma lane_vdupq_n_s32: "vgetq_lane_s32 (vdupq_n_s32 x) i = x"
  by (cases i) (simp_all add: vdupq_n_s32_def)

lemma int32x4_eqI:
  assumes "\<And>i. vgetq_lane_s32 a i = vgetq_lane_s32 b i"
  shows "a = b"
proof (cases a; cases b)
  fix a0 a1 a2 a3 b0 b1 b2 b3
  assume ab: "a = Int32x4 a0 a1 a2 a3" "b = Int32x4 b0 b1 b2 b3"
  from assms [of Lane0] assms [of Lane1] assms [of Lane2] assms [of Lane3] ab
  show "a = b" by simp
qed

lemma is_mask_vector_lane: "is_mask_vector m \<longleftrightarrow> (\<forall>i. is_mask_lane (vgetq_lane_s32 m i))"
proof (cases m)
  case (Int32x4 a b c d)
  have "(\<forall>i. P i) \<longleftrightarrow> P Lane0 \<and> P Lane1 \<and> P Lane2 \<and> P Lane3" for P
    by (metis lane.exhaust)
  then show ?thesis
    by (simp add: Int32x4)
qed

text \<open>Bit by bit: a mask lane has all 32 bits set or none.\<close>

lemma is_mask_lane_bits:
  "is_mask_lane m \<longleftrightarrow> (\<forall>n < 32. bit m n) \<or> (\<forall>n < 32. \<not> bit m n)"
proof
  assume "is_mask_lane m"
  then show "(\<forall>n < 32. bit m n) \<or> (\<forall>n < 32. \<not> bit m n)"
    by (auto simp add: is_mask_lane_def all_ones_def bit_simps)
next
  assume "(\<forall>n < 32. bit m n) \<or> (\<forall>n < 32. \<not> bit m n)"
  then show "is_mask_lane m"
  proof
    assume "\<forall>n < 32. bit m n"
    then have "m = NOT 0"
      by (intro bit_word_eqI) (simp add: bit_simps)
    then show ?thesis
      by (simp add: is_mask_lane_def all_ones_def)
  next
    assume "\<forall>n < 32. \<not> bit m n"
    then have "m = 0"
      by (intro bit_word_eqI) simp
    then show ?thesis
      by (simp add: is_mask_lane_def)
  qed
qed

lemma sint32_bounds: "- (2 ^ 31) \<le> sint (x :: int32)" "sint (x :: int32) < 2 ^ 31"
  using sint_ge [of x] sint_lt [of x] by simp_all

lemma round_div_pow2:
  assumes "0 < n"
  shows "round (real_of_int k / 2 ^ n) = (k + 2 ^ (n - 1)) div 2 ^ n"
proof -
  have p: "(2::real) ^ n = 2 * 2 ^ (n - 1)"
    using assms by (cases n) simp_all
  have "real_of_int k / 2 ^ n + 1 / 2 = real_of_int (k + 2 ^ (n - 1)) / real_of_int (2 ^ n)"
    by (simp add: p field_simps)
  then show ?thesis
    unfolding round_def by (simp only: floor_divide_of_int_eq)
qed

lemma and_not_disjoint: "(m AND t) AND (NOT m AND e) = (0 :: int32)"
  by (rule bit_eqI) (auto simp add: bit_simps)

lemma xor_eq_or_disjoint:
  "(m AND t) XOR (NOT m AND e) = (m AND t) OR (NOT m AND (e :: int32))"
  by (rule bit_eqI) (auto simp add: bit_simps)

lemma lane_BitAnd: "vgetq_lane_s32 (BitAnd a b) i = vgetq_lane_s32 a i AND vgetq_lane_s32 b i"
  by (simp add: BitAnd_def vandq_s32_def lane_map2_lanes)

lemma lane_BitOr: "vgetq_lane_s32 (BitOr a b) i = vgetq_lane_s32 a i OR vgetq_lane_s32 b i"
  by (simp add: BitOr_def vorrq_s32_def lane_map2_lanes)

lemma lane_BitXor: "vgetq_lane_s32 (BitXor a b) i = vgetq_lane_s32 a i XOR vgetq_lane_s32 b i"
  by (simp add: BitXor_def veorq_s32_def lane_map2_lanes)

lemma lane_BitNot: "vgetq_lane_s32 (BitNot a) i = NOT (vgetq_lane_s32 a i)"
  by (simp add: BitNot_def veorq_s32_def lane_map2_lanes lane_vdupq_n_s32)

lemma lane_SelectUsingMask:
  "vgetq_lane_s32 (SelectUsingMask m t e) i =
     (vgetq_lane_s32 m i AND vgetq_lane_s32 t i) XOR (NOT (vgetq_lane_s32 m i) AND vgetq_lane_s32 e i)"
  by (simp add: SelectUsingMask_def lane_BitXor lane_BitAnd lane_BitNot)

lemma lane_MaskIfEqual:
  "vgetq_lane_s32 (MaskIfEqual a b) i = (if vgetq_lane_s32 a i = vgetq_lane_s32 b i then NOT 0 else 0)"
  by (simp add: MaskIfEqual_def vceqq_s32_def lane_compare_lanes)

lemma lane_MaskIfNotEqual:
  "vgetq_lane_s32 (MaskIfNotEqual a b) i = (if vgetq_lane_s32 a i \<noteq> vgetq_lane_s32 b i then NOT 0 else 0)"
  by (simp add: MaskIfNotEqual_def lane_BitNot lane_MaskIfEqual)

lemma lane_MaskIfZero:
  "vgetq_lane_s32 (MaskIfZero a) i = (if vgetq_lane_s32 a i = 0 then NOT 0 else 0)"
  by (simp add: MaskIfZero_def lane_MaskIfEqual lane_vdupq_n_s32)

lemma lane_MaskIfNonZero:
  "vgetq_lane_s32 (MaskIfNonZero a) i = (if vgetq_lane_s32 a i \<noteq> 0 then NOT 0 else 0)"
  by (simp add: MaskIfNonZero_def lane_BitNot lane_MaskIfZero)

lemma lane_MaskIfGreaterThan:
  "vgetq_lane_s32 (MaskIfGreaterThan a b) i =
     (if sint (vgetq_lane_s32 a i) > sint (vgetq_lane_s32 b i) then NOT 0 else 0)"
  by (simp add: MaskIfGreaterThan_def vcgtq_s32_def lane_compare_lanes)

lemma lane_MaskIfGreaterThanOrEqual:
  "vgetq_lane_s32 (MaskIfGreaterThanOrEqual a b) i =
     (if sint (vgetq_lane_s32 a i) \<ge> sint (vgetq_lane_s32 b i) then NOT 0 else 0)"
  by (simp add: MaskIfGreaterThanOrEqual_def vcgeq_s32_def lane_compare_lanes)

lemma lane_MaskIfLessThan:
  "vgetq_lane_s32 (MaskIfLessThan a b) i =
     (if sint (vgetq_lane_s32 a i) < sint (vgetq_lane_s32 b i) then NOT 0 else 0)"
  by (simp add: MaskIfLessThan_def vcltq_s32_def lane_compare_lanes)

lemma lane_MaskIfLessThanOrEqual:
  "vgetq_lane_s32 (MaskIfLessThanOrEqual a b) i =
     (if sint (vgetq_lane_s32 a i) \<le> sint (vgetq_lane_s32 b i) then NOT 0 else 0)"
  by (simp add: MaskIfLessThanOrEqual_def vcleq_s32_def lane_compare_lanes)

lemmas lane_MaskIf = lane_MaskIfEqual lane_MaskIfNotEqual lane_MaskIfZero lane_MaskIfNonZero
  lane_MaskIfGreaterThan lane_MaskIfGreaterThanOrEqual lane_MaskIfLessThan lane_MaskIfLessThanOrEqual

lemma sint_word_of_int_wrap: "sint (word_of_int k :: int32) = wrap_int32 k"
  by (simp add: sint_sbintrunc' signed_take_bit_eq_take_bit_shift take_bit_eq_mod wrap_int32_def)

lemma sint_word_of_int_in_range:
  assumes "- (2 ^ 31) \<le> k" "k < 2 ^ 31"
  shows "sint (word_of_int k :: int32) = k"
  using assms by (simp add: sint_sbintrunc' signed_take_bit_int_eq_self)

lemma lane_Add:
  "vgetq_lane_s32 (Add a b) i = word_of_int (sint (vgetq_lane_s32 a i) + sint (vgetq_lane_s32 b i))"
  by (simp add: Add_def vaddq_s32_def lane_map2_lanes)

lemma lane_Sub:
  "vgetq_lane_s32 (Sub a b) i = word_of_int (sint (vgetq_lane_s32 a i) - sint (vgetq_lane_s32 b i))"
  by (simp add: Sub_def vsubq_s32_def lane_map2_lanes)

lemma lane_Neg:
  "vgetq_lane_s32 (Neg a) i = word_of_int (- sint (vgetq_lane_s32 a i))"
  by (simp add: Neg_def vnegq_s32_def lane_map_lanes)

lemma lane_RoundingHalfSum:
  "vgetq_lane_s32 (RoundingHalfSum a b) i =
     word_of_int (drop_bit 1 (sint (vgetq_lane_s32 a i) + sint (vgetq_lane_s32 b i) + 1))"
  by (simp add: RoundingHalfSum_def vrhaddq_s32_def lane_map2_lanes)

lemma drop_bit_1_int: "drop_bit 1 (k :: int) = k div 2"
  by (simp add: drop_bit_eq_div)

lemma sint_rounding_half_sum:
  fixes x y :: int32
  shows "sint (word_of_int (drop_bit 1 (sint x + sint y + 1)) :: int32) = (sint x + sint y + 1) div 2"
proof -
  have "- (2 ^ 31) \<le> (sint x + sint y + 1) div 2" "(sint x + sint y + 1) div 2 < 2 ^ 31"
    using sint32_bounds [of x] sint32_bounds [of y] by linarith+
  then show ?thesis
    by (simp only: drop_bit_1_int sint_word_of_int_in_range)
qed

lemma round_half: "round ((real_of_int x + real_of_int y) / 2) = (x + y + 1) div 2"
  using round_div_pow2 [of 1 "x + y"] by simp

subsection \<open>Signed values, saturation and rounding\<close>

lemma sint_int32_min: "sint int32_min = - (2 ^ 31)"
  by (simp add: int32_min_def)

lemma sint_int32_max: "sint int32_max = 2 ^ 31 - 1"
  by (simp add: int32_max_def)

lemma int32_min_iff: "x = int32_min \<longleftrightarrow> sint x = - (2 ^ 31)"
proof
  assume "x = int32_min"
  then show "sint x = - (2 ^ 31)" by (simp add: sint_int32_min)
next
  assume "sint x = - (2 ^ 31)"
  then have "sint x = sint int32_min" by (simp only: sint_int32_min)
  then show "x = int32_min" by (rule signed_word_eqI)
qed

lemma abs_product_bound:
  fixes X Y A B :: int
  assumes "\<bar>X\<bar> \<le> A" "\<bar>Y\<bar> \<le> B"
  shows "\<bar>X * Y\<bar> \<le> A * B"
proof -
  have "\<bar>X\<bar> * \<bar>Y\<bar> \<le> A * B"
    using assms by (intro mult_mono) simp_all
  then show ?thesis by (simp only: abs_mult)
qed

lemma product_bound_not_both_min:
  fixes x y :: int32
  assumes "\<not> (x = int32_min \<and> y = int32_min)"
  shows "\<bar>sint x * sint y\<bar> \<le> 2 ^ 62 - 2 ^ 31"
proof -
  have bx: "\<bar>sint x\<bar> \<le> 2 ^ 31" and "\<bar>sint y\<bar> \<le> 2 ^ 31"
    using sint32_bounds [of x] sint32_bounds [of y] by simp_all
  from assms consider "x \<noteq> int32_min" | "y \<noteq> int32_min" by blast
  then show ?thesis
  proof cases
    case 1
    then have "\<bar>sint x\<bar> \<le> 2 ^ 31 - 1"
      using sint32_bounds [of x] by (simp add: int32_min_iff)
    from abs_product_bound [OF this \<open>\<bar>sint y\<bar> \<le> 2 ^ 31\<close>] show ?thesis by simp
  next
    case 2
    then have "\<bar>sint y\<bar> \<le> 2 ^ 31 - 1"
      using sint32_bounds [of y] by (simp add: int32_min_iff)
    from abs_product_bound [OF bx this] show ?thesis by simp
  qed
qed

lemma lane_SaturatingRoundingDoublingHighMul:
  "vgetq_lane_s32 (SaturatingRoundingDoublingHighMul a b) i =
     fst (SignedSatQ (drop_bit 32 (2 * sint (vgetq_lane_s32 a i) * sint (vgetq_lane_s32 b i) + 2 ^ 31)))"
  by (simp add: SaturatingRoundingDoublingHighMul_def vqrdmulhq_s32_def lane_map2_lanes)

lemma doubling_high_mul_both_min:
  "fst (SignedSatQ (drop_bit 32 (2 * sint int32_min * sint int32_min + 2 ^ 31))) = int32_max"
  by (simp add: sint_int32_min SignedSatQ_def drop_bit_eq_div int32_max_def)

lemma doubling_high_mul_other:
  fixes x y :: int32
  assumes "\<not> (x = int32_min \<and> y = int32_min)"
  shows "fst (SignedSatQ (drop_bit 32 (2 * sint x * sint y + 2 ^ 31))) =
           word_of_int ((2 * (sint x * sint y) + 2 ^ 31) div 2 ^ 32)"
    and "- (2 ^ 31) \<le> (2 * (sint x * sint y) + 2 ^ 31) div 2 ^ 32"
    and "(2 * (sint x * sint y) + 2 ^ 31) div 2 ^ 32 < 2 ^ 31"
proof -
  define q where "q = (2 * (sint x * sint y) + 2 ^ 31) div 2 ^ 32"
  have "\<bar>sint x * sint y\<bar> \<le> 2 ^ 62 - 2 ^ 31"
    by (rule product_bound_not_both_min [OF assms])
  then have lo: "- (2 ^ 31) \<le> q" and hi: "q < 2 ^ 31"
    unfolding q_def by simp_all
  have e: "drop_bit 32 (2 * sint x * sint y + 2 ^ 31) = q"
    by (simp add: q_def drop_bit_eq_div mult.assoc)
  from lo hi have "fst (SignedSatQ q) = word_of_int q"
    by (simp add: SignedSatQ_def)
  then show "fst (SignedSatQ (drop_bit 32 (2 * sint x * sint y + 2 ^ 31))) =
           word_of_int ((2 * (sint x * sint y) + 2 ^ 31) div 2 ^ 32)"
    unfolding e unfolding q_def .
  from lo hi show "- (2 ^ 31) \<le> (2 * (sint x * sint y) + 2 ^ 31) div 2 ^ 32"
    and "(2 * (sint x * sint y) + 2 ^ 31) div 2 ^ 32 < 2 ^ 31"
    unfolding q_def by simp_all
qed

lemma round_doubled_product:
  "round (2 * real_of_int X * real_of_int Y / 2 ^ 32) = (2 * (X * Y) + 2 ^ 31) div 2 ^ 32"
  using round_div_pow2 [of 32 "2 * (X * Y)"] by (simp add: mult.assoc)

lemma nearest_doubled_product:
  fixes p :: int
  shows "\<bar>2 ^ 32 * ((2 * p + 2 ^ 31) div 2 ^ 32) - 2 * p\<bar> \<le> 2 ^ 31"
proof -
  define q m :: int where "q = (2 * p + 2 ^ 31) div 2 ^ 32" and "m = (2 * p + 2 ^ 31) mod 2 ^ 32"
  have "2 * p + 2 ^ 31 = 2 ^ 32 * q + m"
    unfolding q_def m_def by (rule mult_div_mod_eq [symmetric])
  moreover have "0 \<le> m" "m < 2 ^ 32"
    unfolding m_def by simp_all
  ultimately have "\<bar>2 ^ 32 * q - 2 * p\<bar> \<le> 2 ^ 31"
    by simp
  then show ?thesis
    unfolding q_def .
qed

lemma sint_SignedSatQ: "sint (fst (SignedSatQ k)) = clamp_int32 k"
  by (simp add: SignedSatQ_def clamp_int32_def sint_word_of_int_in_range)

lemma fst_SignedSatQ: "fst (SignedSatQ k) = word_of_int (clamp_int32 k)"
  by (simp add: SignedSatQ_def clamp_int32_def)

lemma snd_SignedSatQ: "snd (SignedSatQ k) \<longleftrightarrow> k < - (2 ^ 31) \<or> 2 ^ 31 - 1 < k"
  by (auto simp add: SignedSatQ_def)

lemma rounding_shift_in_range:
  fixes x :: int32
  assumes "0 < n"
  shows "- (2 ^ 31) \<le> (sint x + 2 ^ (n - 1)) div 2 ^ n"
    and "(sint x + 2 ^ (n - 1)) div 2 ^ n < 2 ^ 31"
proof -
  define P :: int where "P = 2 ^ (n - 1)"
  have P: "1 \<le> P" by (simp add: P_def)
  have N: "(2 :: int) ^ n = 2 * P"
    using assms by (cases n) (simp_all add: P_def)
  have "(- (2 ^ 31) :: int) div 1 \<le> - (2 ^ 31) div (2 * P)"
    using P by (intro zdiv_mono2_neg) simp_all
  moreover have "(- (2 ^ 31) :: int) div (2 * P) \<le> (sint x + P) div (2 * P)"
    using P sint32_bounds [of x] by (intro zdiv_mono1) simp_all
  ultimately show "- (2 ^ 31) \<le> (sint x + 2 ^ (n - 1)) div 2 ^ n"
    unfolding N unfolding P_def [symmetric] by simp
  have "(sint x + P) div (2 * P) \<le> (2 ^ 31 * (2 * P) + (- 1)) div (2 * P)"
    using P sint32_bounds [of x] by (intro zdiv_mono1) simp_all
  also have "\<dots> = 2 ^ 31 + (- 1) div (2 * P)"
    using P by (subst div_mult_self3) simp_all
  also have "(- 1 :: int) div (2 * P) = - 1"
    using P by (simp add: div_eq_minus1)
  finally show "(sint x + 2 ^ (n - 1)) div 2 ^ n < 2 ^ 31"
    unfolding N unfolding P_def [symmetric] by simp
qed

lemma sint_rounding_shift:
  fixes x :: int32
  assumes "0 < n"
  shows "sint (word_of_int (drop_bit n (sint x + 2 ^ (n - 1))) :: int32) = round (real_of_int (sint x) / 2 ^ n)"
  using rounding_shift_in_range [OF assms, of x]
  by (simp only: drop_bit_eq_div sint_word_of_int_in_range round_div_pow2 [OF assms])

lemma SaturatingRoundingMultiplyByPOT_pos:
  assumes "1 \<le> e" "e \<le> 31"
  shows "SaturatingRoundingMultiplyByPOT e x =
           Inr (map_lanes (\<lambda>v. fst (SignedSatQ (push_bit (nat e) (sint v)))) x)"
  using assms
  by (simp add: SaturatingRoundingMultiplyByPOT_def ImplSaturatingRoundingMultiplyByPOT_pos_def
      vqshlq_n_s32_def)

lemma SaturatingRoundingMultiplyByPOT_neg:
  assumes "- 32 \<le> e" "e \<le> - 1"
  shows "SaturatingRoundingMultiplyByPOT e x =
           Inr (map_lanes (\<lambda>v. word_of_int (drop_bit (nat (- e)) (sint v + 2 ^ (nat (- e) - 1)))) x)"
  using assms
  by (simp add: SaturatingRoundingMultiplyByPOT_def ImplSaturatingRoundingMultiplyByPOT_neg_def
      vrshrq_n_s32_def)

lemma SaturatingRoundingMultiplyByPOT_zero:
  "SaturatingRoundingMultiplyByPOT 0 x = Inl NoSpecialization"
  by (simp add: SaturatingRoundingMultiplyByPOT_def)

lemma SaturatingRoundingMultiplyByPOT_out_of_range:
  assumes "31 < e \<or> e < - 32"
  shows "SaturatingRoundingMultiplyByPOT e x = Inl ImmediateOutOfRange"
  using assms
  by (auto simp add: SaturatingRoundingMultiplyByPOT_def ImplSaturatingRoundingMultiplyByPOT_pos_def
      ImplSaturatingRoundingMultiplyByPOT_neg_def vqshlq_n_s32_def vrshrq_n_s32_def)

lemma vqshlq_n_s32_QC_lane:
  "vqshlq_n_s32_QC x n \<longleftrightarrow> (\<exists>i. snd (SignedSatQ (push_bit (nat n) (sint (vgetq_lane_s32 x i)))))"
proof (cases x)
  case (Int32x4 a b c d)
  have ex: "(\<exists>i. P i) \<longleftrightarrow> P Lane0 \<or> P Lane1 \<or> P Lane2 \<or> P Lane3" for P
    by (metis lane.exhaust)
  show ?thesis
    by (simp add: Int32x4 ex)
qed

lemma shift_left_then_rounding_shift_right:
  fixes X :: int
  assumes "0 < n"
  shows "(X * 2 ^ n + 2 ^ (n - 1)) div 2 ^ n = X"
proof -
  have "(2 :: int) ^ (n - 1) < 2 ^ n"
    using assms by simp
  then have "(2 :: int) ^ (n - 1) div 2 ^ n = 0"
    by simp
  moreover have "(X * 2 ^ n + 2 ^ (n - 1)) div 2 ^ n = X + 2 ^ (n - 1) div 2 ^ n"
    by (rule div_mult_self3) simp
  ultimately show ?thesis
    by simp
qed

lemma round_trip_lane:
  fixes v :: int32
  assumes "0 < n" "\<not> snd (SignedSatQ (push_bit n (sint v)))"
  shows "word_of_int (drop_bit n (sint (fst (SignedSatQ (push_bit n (sint v)))) + 2 ^ (n - 1))) = v"
proof -
  from assms(2) have "- (2 ^ 31) \<le> sint v * 2 ^ n" "sint v * 2 ^ n < 2 ^ 31"
    by (simp_all add: snd_SignedSatQ push_bit_eq_mult)
  then have "sint (fst (SignedSatQ (push_bit n (sint v)))) = sint v * 2 ^ n"
    by (simp add: sint_SignedSatQ push_bit_eq_mult clamp_int32_def)
  then have "drop_bit n (sint (fst (SignedSatQ (push_bit n (sint v)))) + 2 ^ (n - 1)) = sint v"
    by (simp only: drop_bit_eq_div shift_left_then_rounding_shift_right [OF assms(1)])
  then show ?thesis
    by simp
qed

lemma lane_Dup: "vgetq_lane_s32 (Dup x) i = x"
  by (simp add: Dup_def lane_vdupq_n_s32)

lemma scalar_RoundingHalfSum_eq:
  "vgetq_lane_s32 (RoundingHalfSum a b) i =
     scalar_RoundingHalfSum (vgetq_lane_s32 a i) (vgetq_lane_s32 b i)"
  by (simp only: lane_RoundingHalfSum scalar_RoundingHalfSum_def round_half drop_bit_1_int)

lemma scalar_SaturatingRoundingDoublingHighMul_eq:
  "vgetq_lane_s32 (SaturatingRoundingDoublingHighMul a b) i =
     scalar_SaturatingRoundingDoublingHighMul (vgetq_lane_s32 a i) (vgetq_lane_s32 b i)"
proof (cases "vgetq_lane_s32 a i = int32_min \<and> vgetq_lane_s32 b i = int32_min")
  case True
  then show ?thesis
    by (simp only: lane_SaturatingRoundingDoublingHighMul doubling_high_mul_both_min
        scalar_SaturatingRoundingDoublingHighMul_def simp_thms if_True)
next
  case False
  from doubling_high_mul_other(1) [OF False] False show ?thesis
    by (simp only: lane_SaturatingRoundingDoublingHighMul
        scalar_SaturatingRoundingDoublingHighMul_def round_doubled_product if_False)
qed

lemma scalar_SaturatingRoundingMultiplyByPOT_eq:
  assumes "e \<noteq> 0" "- 32 \<le> e" "e \<le> 31"
  shows "\<exists>r. SaturatingRoundingMultiplyByPOT e a = Inr r
           \<and> scalar_SaturatingRoundingMultiplyByPOT e (vgetq_lane_s32 a i) = Some (vgetq_lane_s32 r i)"
proof (cases "0 < e")
  case True
  with assms have "SaturatingRoundingMultiplyByPOT e a =
      Inr (map_lanes (\<lambda>v. fst (SignedSatQ (push_bit (nat e) (sint v)))) a)"
    by (intro SaturatingRoundingMultiplyByPOT_pos) simp_all
  moreover from True have "scalar_SaturatingRoundingMultiplyByPOT e (vgetq_lane_s32 a i) =
      Some (vgetq_lane_s32 (map_lanes (\<lambda>v. fst (SignedSatQ (push_bit (nat e) (sint v)))) a) i)"
    by (simp add: scalar_SaturatingRoundingMultiplyByPOT_def saturating_shift_left_def
        lane_map_lanes fst_SignedSatQ push_bit_eq_mult)
  ultimately show ?thesis
    by blast
next
  case False
  with assms have e: "e < 0" "0 < nat (- e)"
    by simp_all
  from assms e have "SaturatingRoundingMultiplyByPOT e a =
      Inr (map_lanes (\<lambda>v. word_of_int (drop_bit (nat (- e)) (sint v + 2 ^ (nat (- e) - 1)))) a)"
    by (intro SaturatingRoundingMultiplyByPOT_neg) simp_all
  moreover have "rounding_shift_right (nat (- e)) (vgetq_lane_s32 a i) =
      vgetq_lane_s32 (map_lanes (\<lambda>v. word_of_int (drop_bit (nat (- e)) (sint v + 2 ^ (nat (- e) - 1)))) a) i"
    by (simp only: rounding_shift_right_def lane_map_lanes round_div_pow2 [OF e(2)] drop_bit_eq_div)
  then have "scalar_SaturatingRoundingMultiplyByPOT e (vgetq_lane_s32 a i) =
      Some (vgetq_lane_s32 (map_lanes (\<lambda>v. word_of_int (drop_bit (nat (- e)) (sint v + 2 ^ (nat (- e) - 1)))) a) i)"
    using e by (simp add: scalar_SaturatingRoundingMultiplyByPOT_def)
  ultimately show ?thesis
    by blast
qed

section \<open>C1: the NEON backend refines the scalar semantics\<close>

text \<open>
  Claim C1. For every primitive operation of the NEON backend (\<open>BitAnd\<close>, \<open>BitOr\<close>,
  \<open>BitXor\<close>, \<open>BitNot\<close>, \<open>Add\<close>, \<open>Sub\<close>, \<open>Neg\<close>, \<open>SelectUsingMask\<close>, the eight
  \<open>MaskIf\<close> comparisons, \<open>RoundingHalfSum\<close>, \<open>SaturatingRoundingDoublingHighMul\<close>,
  \<open>SaturatingRoundingMultiplyByPOT\<close>, \<open>Dup\<close>) and for all inputs, lane \<open>i\<close> of the
  vector result is the scalar operation applied to lane \<open>i\<close> of the inputs, for each
  of the four lanes. For \<open>SaturatingRoundingMultiplyByPOT\<close> this is stated for the
  exponents at which the backend provides the operation.
\<close>

theorem neon_refines_scalar:
  "vgetq_lane_s32 (BitAnd a b) i = scalar_BitAnd (vgetq_lane_s32 a i) (vgetq_lane_s32 b i)
   \<and> vgetq_lane_s32 (BitOr a b) i = scalar_BitOr (vgetq_lane_s32 a i) (vgetq_lane_s32 b i)
   \<and> vgetq_lane_s32 (BitXor a b) i = scalar_BitXor (vgetq_lane_s32 a i) (vgetq_lane_s32 b i)
   \<and> vgetq_lane_s32 (BitNot a) i = scalar_BitNot (vgetq_lane_s32 a i)
   \<and> vgetq_lane_s32 (Add a b) i = scalar_Add (vgetq_lane_s32 a i) (vgetq_lane_s32 b i)
   \<and> vgetq_lane_s32 (Sub a b) i = scalar_Sub (vgetq_lane_s32 a i) (vgetq_lane_s32 b i)
   \<and> vgetq_lane_s32 (Neg a) i = scalar_Neg (vgetq_lane_s32 a i)
   \<and> vgetq_lane_s32 (SelectUsingMask a b c) i =
       scalar_SelectUsingMask (vgetq_lane_s32 a i) (vgetq_lane_s32 b i) (vgetq_lane_s32 c i)
   \<and> vgetq_lane_s32 (MaskIfEqual a b) i = scalar_MaskIfEqual (vgetq_lane_s32 a i) (vgetq_lane_s32 b i)
   \<and> vgetq_lane_s32 (MaskIfNotEqual a b) i = scalar_MaskIfNotEqual (vgetq_lane_s32 a i) (vgetq_lane_s32 b i)
   \<and> vgetq_lane_s32 (MaskIfZero a) i = scalar_MaskIfZero (vgetq_lane_s32 a i)
   \<and> vgetq_lane_s32 (MaskIfNonZero a) i = scalar_MaskIfNonZero (vgetq_lane_s32 a i)
   \<and> vgetq_lane_s32 (MaskIfGreaterThan a b) i =
       scalar_MaskIfGreaterThan (vgetq_lane_s32 a i) (vgetq_lane_s32 b i)
   \<and> vgetq_lane_s32 (MaskIfGreaterThanOrEqual a b) i =
       scalar_MaskIfGreaterThanOrEqual (vgetq_lane_s32 a i) (vgetq_lane_s32 b i)
   \<and> vgetq_lane_s32 (MaskIfLessThan a b) i =
       scalar_MaskIfLessThan (vgetq_lane_s32 a i) (vgetq_lane_s32 b i)
   \<and> vgetq_lane_s32 (MaskIfLessThanOrEqual a b) i =
       scalar_MaskIfLessThanOrEqual (vgetq_lane_s32 a i) (vgetq_lane_s32 b i)
   \<and> vgetq_lane_s32 (RoundingHalfSum a b) i =
       scalar_RoundingHalfSum (vgetq_lane_s32 a i) (vgetq_lane_s32 b i)
   \<and> vgetq_lane_s32 (SaturatingRoundingDoublingHighMul a b) i =
       scalar_SaturatingRoundingDoublingHighMul (vgetq_lane_s32 a i) (vgetq_lane_s32 b i)
   \<and> (e \<noteq> 0 \<and> - 32 \<le> e \<and> e \<le> 31 \<longrightarrow>
        (\<exists>r. SaturatingRoundingMultiplyByPOT e a = Inr r
           \<and> scalar_SaturatingRoundingMultiplyByPOT e (vgetq_lane_s32 a i) = Some (vgetq_lane_s32 r i)))
   \<and> vgetq_lane_s32 (Dup x) i = scalar_Dup x"
proof (intro conjI impI)
  show "vgetq_lane_s32 (BitAnd a b) i = scalar_BitAnd (vgetq_lane_s32 a i) (vgetq_lane_s32 b i)"
    by (simp add: lane_BitAnd scalar_BitAnd_def)
  show "vgetq_lane_s32 (BitOr a b) i = scalar_BitOr (vgetq_lane_s32 a i) (vgetq_lane_s32 b i)"
    by (simp add: lane_BitOr scalar_BitOr_def)
  show "vgetq_lane_s32 (BitXor a b) i = scalar_BitXor (vgetq_lane_s32 a i) (vgetq_lane_s32 b i)"
    by (simp add: lane_BitXor scalar_BitXor_def)
  show "vgetq_lane_s32 (BitNot a) i = scalar_BitNot (vgetq_lane_s32 a i)"
    by (simp add: lane_BitNot scalar_BitNot_def)
  show "vgetq_lane_s32 (Add a b) i = scalar_Add (vgetq_lane_s32 a i) (vgetq_lane_s32 b i)"
    by (simp add: lane_Add scalar_Add_def)
  show "vgetq_lane_s32 (Sub a b) i = scalar_Sub (vgetq_lane_s32 a i) (vgetq_lane_s32 b i)"
    by (simp add: lane_Sub scalar_Sub_def)
  show "vgetq_lane_s32 (Neg a) i = scalar_Neg (vgetq_lane_s32 a i)"
    by (simp add: lane_Neg scalar_Neg_def)
  show "vgetq_lane_s32 (SelectUsingMask a b c) i =
       scalar_SelectUsingMask (vgetq_lane_s32 a i) (vgetq_lane_s32 b i) (vgetq_lane_s32 c i)"
    by (simp only: lane_SelectUsingMask scalar_SelectUsingMask_def xor_eq_or_disjoint)
  show "vgetq_lane_s32 (MaskIfEqual a b) i = scalar_MaskIfEqual (vgetq_lane_s32 a i) (vgetq_lane_s32 b i)"
    by (simp add: lane_MaskIfEqual scalar_MaskIfEqual_def all_ones_def)
  show "vgetq_lane_s32 (MaskIfNotEqual a b) i = scalar_MaskIfNotEqual (vgetq_lane_s32 a i) (vgetq_lane_s32 b i)"
    by (simp add: lane_MaskIfNotEqual scalar_MaskIfNotEqual_def all_ones_def)
  show "vgetq_lane_s32 (MaskIfZero a) i = scalar_MaskIfZero (vgetq_lane_s32 a i)"
    by (simp add: lane_MaskIfZero scalar_MaskIfZero_def scalar_MaskIfEqual_def all_ones_def)
  show "vgetq_lane_s32 (MaskIfNonZero a) i = scalar_MaskIfNonZero (vgetq_lane_s32 a i)"
    by (simp add: lane_MaskIfNonZero scalar_MaskIfNonZero_def scalar_MaskIfNotEqual_def all_ones_def)
  show "vgetq_lane_s32 (MaskIfGreaterThan a b) i =
       scalar_MaskIfGreaterThan (vgetq_lane_s32 a i) (vgetq_lane_s32 b i)"
    by (simp add: lane_MaskIfGreaterThan scalar_MaskIfGreaterThan_def all_ones_def)
  show "vgetq_lane_s32 (MaskIfGreaterThanOrEqual a b) i =
       scalar_MaskIfGreaterThanOrEqual (vgetq_lane_s32 a i) (vgetq_lane_s32 b i)"
    by (simp add: lane_MaskIfGreaterThanOrEqual scalar_MaskIfGreaterThanOrEqual_def all_ones_def)
  show "vgetq_lane_s32 (MaskIfLessThan a b) i =
       scalar_MaskIfLessThan (vgetq_lane_s32 a i) (vgetq_lane_s32 b i)"
    by (simp add: lane_MaskIfLessThan scalar_MaskIfLessThan_def all_ones_def)
  show "vgetq_lane_s32 (MaskIfLessThanOrEqual a b) i =
       scalar_MaskIfLessThanOrEqual (vgetq_lane_s32 a i) (vgetq_lane_s32 b i)"
    by (simp add: lane_MaskIfLessThanOrEqual scalar_MaskIfLessThanOrEqual_def all_ones_def)
  show "vgetq_lane_s32 (RoundingHalfSum a b) i =
       scalar_RoundingHalfSum (vgetq_lane_s32 a i) (vgetq_lane_s32 b i)"
    by (rule scalar_RoundingHalfSum_eq)
  show "vgetq_lane_s32 (SaturatingRoundingDoublingHighMul a b) i =
       scalar_SaturatingRoundingDoublingHighMul (vgetq_lane_s32 a i) (vgetq_lane_s32 b i)"
    by (rule scalar_SaturatingRoundingDoublingHighMul_eq)
  show "\<exists>r. SaturatingRoundingMultiplyByPOT e a = Inr r
           \<and> scalar_SaturatingRoundingMultiplyByPOT e (vgetq_lane_s32 a i) = Some (vgetq_lane_s32 r i)"
    if "e \<noteq> 0 \<and> - 32 \<le> e \<and> e \<le> 31"
    using that by (intro scalar_SaturatingRoundingMultiplyByPOT_eq) simp_all
  show "vgetq_lane_s32 (Dup x) i = scalar_Dup x"
    by (simp add: lane_Dup scalar_Dup_def)
qed

theorem neon_refines_scalar_witness:
  "(case SaturatingRoundingMultiplyByPOT 2 (Int32x4 1 (- 3) (2 ^ 30) 0) of
      Inr r \<Rightarrow> scalar_SaturatingRoundingMultiplyByPOT 2 (- 3) = Some (vgetq_lane_s32 r Lane1)
    | Inl err \<Rightarrow> False)
   \<and> scalar_SaturatingRoundingMultiplyByPOT 2 (- 3) = Some (- 12)
   \<and> vgetq_lane_s32 (Add (Int32x4 1 (- 3) (2 ^ 30) 0) (Dup 3)) Lane1 = scalar_Add (- 3) 3"
proof -
  let ?a = "Int32x4 1 (- 3) (2 ^ 30) 0"
  have h: "(2 :: int) \<noteq> 0 \<and> - 32 \<le> (2 :: int) \<and> (2 :: int) \<le> 31"
    by simp
  from neon_refines_scalar [of ?a "Dup 3" Lane1 ?a 2 0] h
  obtain r where r: "SaturatingRoundingMultiplyByPOT 2 ?a = Inr r"
    "scalar_SaturatingRoundingMultiplyByPOT 2 (vgetq_lane_s32 ?a Lane1) = Some (vgetq_lane_s32 r Lane1)"
    by blast
  from r(2) have 1: "scalar_SaturatingRoundingMultiplyByPOT 2 (- 3) = Some (vgetq_lane_s32 r Lane1)"
    by simp
  have 2: "scalar_SaturatingRoundingMultiplyByPOT 2 (- 3) = Some (- 12)"
    by (simp add: scalar_SaturatingRoundingMultiplyByPOT_def saturating_shift_left_def clamp_int32_def)
  from neon_refines_scalar [of ?a "Dup 3" Lane1 ?a 2 0]
  have 3: "vgetq_lane_s32 (Add ?a (Dup 3)) Lane1 = scalar_Add (- 3) 3"
    by (simp add: lane_Dup)
  from 1 2 3 show ?thesis
    by (simp only: r(1) sum.case simp_thms)
qed

section \<open>C2: SaturatingRoundingDoublingHighMul\<close>

text \<open>
  Claim C2. For all lane values \<open>a\<close> and \<open>b\<close>, \<open>SaturatingRoundingDoublingHighMul\<close>
  returns in every lane the maximum \<open>2^31 - 1\<close> when both lanes hold the minimum
  \<open>-2^31\<close>, and for every other pair exactly \<open>round (2 * a * b / 2^32)\<close>, where
  \<open>round\<close> is to nearest with ties toward positive infinity; in particular the
  result is within one half of \<open>2 * a * b / 2^32\<close>.
\<close>

theorem SaturatingRoundingDoublingHighMul_value:
  "(if vgetq_lane_s32 a i = int32_min \<and> vgetq_lane_s32 b i = int32_min
    then vgetq_lane_s32 (SaturatingRoundingDoublingHighMul a b) i = int32_max
    else sint (vgetq_lane_s32 (SaturatingRoundingDoublingHighMul a b) i) =
           round (2 * real_of_int (sint (vgetq_lane_s32 a i)) * real_of_int (sint (vgetq_lane_s32 b i)) / 2 ^ 32)
       \<and> \<bar>2 ^ 32 * sint (vgetq_lane_s32 (SaturatingRoundingDoublingHighMul a b) i)
            - 2 * (sint (vgetq_lane_s32 a i) * sint (vgetq_lane_s32 b i))\<bar> \<le> 2 ^ 31)
   \<and> sint int32_min = - (2 ^ 31) \<and> sint int32_max = 2 ^ 31 - 1"
proof (cases "vgetq_lane_s32 a i = int32_min \<and> vgetq_lane_s32 b i = int32_min")
  case True
  then have "vgetq_lane_s32 (SaturatingRoundingDoublingHighMul a b) i = int32_max"
    by (simp only: lane_SaturatingRoundingDoublingHighMul doubling_high_mul_both_min)
  with True show ?thesis
    by (simp only: sint_int32_min sint_int32_max if_True simp_thms)
next
  case False
  from doubling_high_mul_other [OF False]
  have r: "sint (vgetq_lane_s32 (SaturatingRoundingDoublingHighMul a b) i) =
          (2 * (sint (vgetq_lane_s32 a i) * sint (vgetq_lane_s32 b i)) + 2 ^ 31) div 2 ^ 32"
    by (simp only: lane_SaturatingRoundingDoublingHighMul sint_word_of_int_in_range)
  have n: "\<bar>2 ^ 32 * sint (vgetq_lane_s32 (SaturatingRoundingDoublingHighMul a b) i)
            - 2 * (sint (vgetq_lane_s32 a i) * sint (vgetq_lane_s32 b i))\<bar> \<le> 2 ^ 31"
    unfolding r by (rule nearest_doubled_product)
  from False r n show ?thesis
    by (simp only: round_doubled_product sint_int32_min sint_int32_max if_False simp_thms)
qed

theorem SaturatingRoundingDoublingHighMul_value_witness:
  "vgetq_lane_s32 (SaturatingRoundingDoublingHighMul (Int32x4 int32_min (2 ^ 30) (- (2 ^ 30)) 5)
      (Int32x4 int32_min 1 1 int32_max)) Lane0 = int32_max
   \<and> sint (vgetq_lane_s32 (SaturatingRoundingDoublingHighMul (Int32x4 int32_min (2 ^ 30) (- (2 ^ 30)) 5)
      (Int32x4 int32_min 1 1 int32_max)) Lane1) = 1
   \<and> sint (vgetq_lane_s32 (SaturatingRoundingDoublingHighMul (Int32x4 int32_min (2 ^ 30) (- (2 ^ 30)) 5)
      (Int32x4 int32_min 1 1 int32_max)) Lane2) = 0"
proof -
  let ?a = "Int32x4 int32_min (2 ^ 30) (- (2 ^ 30)) 5"
  let ?b = "Int32x4 int32_min 1 1 int32_max"
  have n: "(2 ^ 30 :: int32) \<noteq> int32_min" "(- (2 ^ 30) :: int32) \<noteq> int32_min"
    by (simp_all add: int32_min_def)
  from SaturatingRoundingDoublingHighMul_value [of ?a Lane0 ?b]
  have 0: "vgetq_lane_s32 (SaturatingRoundingDoublingHighMul ?a ?b) Lane0 = int32_max"
    by simp
  from SaturatingRoundingDoublingHighMul_value [of ?a Lane1 ?b] n
  have 1: "sint (vgetq_lane_s32 (SaturatingRoundingDoublingHighMul ?a ?b) Lane1) = 1"
    by (simp add: round_def)
  from SaturatingRoundingDoublingHighMul_value [of ?a Lane2 ?b] n
  have 2: "sint (vgetq_lane_s32 (SaturatingRoundingDoublingHighMul ?a ?b) Lane2) = 0"
    by (simp add: round_def)
  from 0 1 2 show ?thesis
    by (simp only: simp_thms)
qed

section \<open>C3: RoundingHalfSum\<close>

text \<open>
  Claim C3. For all lane values \<open>a\<close> and \<open>b\<close>, also those whose sum does not fit 32
  bits, \<open>RoundingHalfSum\<close> returns in every lane the exact mean \<open>(a+b)/2\<close> rounded to
  nearest with ties toward positive infinity (twice the result is \<open>a+b\<close> or
  \<open>a+b+1\<close>), and the result lies between \<open>min a b\<close> and \<open>max a b\<close>.
\<close>

theorem RoundingHalfSum_mean:
  "sint (vgetq_lane_s32 (RoundingHalfSum a b) i) =
     round ((real_of_int (sint (vgetq_lane_s32 a i)) + real_of_int (sint (vgetq_lane_s32 b i))) / 2)
   \<and> (2 * sint (vgetq_lane_s32 (RoundingHalfSum a b) i) = sint (vgetq_lane_s32 a i) + sint (vgetq_lane_s32 b i)
      \<or> 2 * sint (vgetq_lane_s32 (RoundingHalfSum a b) i) = sint (vgetq_lane_s32 a i) + sint (vgetq_lane_s32 b i) + 1)
   \<and> min (sint (vgetq_lane_s32 a i)) (sint (vgetq_lane_s32 b i)) \<le> sint (vgetq_lane_s32 (RoundingHalfSum a b) i)
   \<and> sint (vgetq_lane_s32 (RoundingHalfSum a b) i) \<le> max (sint (vgetq_lane_s32 a i)) (sint (vgetq_lane_s32 b i))"
proof -
  define x y r where "x = sint (vgetq_lane_s32 a i)" and "y = sint (vgetq_lane_s32 b i)"
    and "r = sint (vgetq_lane_s32 (RoundingHalfSum a b) i)"
  have r: "r = (x + y + 1) div 2"
    by (simp only: r_def x_def y_def lane_RoundingHalfSum sint_rounding_half_sum)
  have 1: "r = round ((real_of_int x + real_of_int y) / 2)"
    by (simp add: r round_half)
  have 2: "2 * r = x + y \<or> 2 * r = x + y + 1"
    unfolding r by presburger
  have 3: "min x y \<le> r" and 4: "r \<le> max x y"
    unfolding r by linarith+
  from 1 2 3 4 show ?thesis
    unfolding x_def y_def r_def by blast
qed

theorem RoundingHalfSum_mean_witness:
  "sint (vgetq_lane_s32 (RoundingHalfSum (Int32x4 int32_max int32_min (- 3) 2) (Int32x4 int32_max int32_min 0 5)) Lane0)
     = 2 ^ 31 - 1
   \<and> sint (vgetq_lane_s32 (RoundingHalfSum (Int32x4 int32_max int32_min (- 3) 2) (Int32x4 int32_max int32_min 0 5)) Lane1)
     = - (2 ^ 31)
   \<and> sint (vgetq_lane_s32 (RoundingHalfSum (Int32x4 int32_max int32_min (- 3) 2) (Int32x4 int32_max int32_min 0 5)) Lane2)
     = - 1
   \<and> sint (vgetq_lane_s32 (RoundingHalfSum (Int32x4 int32_max int32_min (- 3) 2) (Int32x4 int32_max int32_min 0 5)) Lane3)
     = 4"
proof -
  let ?a = "Int32x4 int32_max int32_min (- 3) 2"
  let ?b = "Int32x4 int32_max int32_min 0 5"
  from RoundingHalfSum_mean [of ?a ?b Lane0]
  have 0: "sint (vgetq_lane_s32 (RoundingHalfSum ?a ?b) Lane0) = 2 ^ 31 - 1"
    by (simp add: sint_int32_max)
  from RoundingHalfSum_mean [of ?a ?b Lane1]
  have 1: "sint (vgetq_lane_s32 (RoundingHalfSum ?a ?b) Lane1) = - (2 ^ 31)"
    by (simp add: sint_int32_min)
  from RoundingHalfSum_mean [of ?a ?b Lane2]
  have 2: "sint (vgetq_lane_s32 (RoundingHalfSum ?a ?b) Lane2) = - 1"
    by simp presburger
  from RoundingHalfSum_mean [of ?a ?b Lane3]
  have 3: "sint (vgetq_lane_s32 (RoundingHalfSum ?a ?b) Lane3) = 4"
    by simp presburger
  from 0 1 2 3 show ?thesis
    by (simp only: simp_thms)
qed

section \<open>C4: SelectUsingMask on well-formed masks\<close>

text \<open>
  Claim C4. For every mask whose lanes are each all-1 or all-0, and for all
  \<open>then_val\<close> and \<open>else_val\<close>, \<open>SelectUsingMask\<close> returns, in every lane, the lane
  of \<open>then_val\<close> where the mask lane is all-1 and the lane of \<open>else_val\<close> where it is
  all-0 (every lane of such a mask is one of the two), and the result equals the
  reference formula \<open>(mask & then_val) | (~mask & else_val)\<close>.
\<close>

theorem SelectUsingMask_truth_table:
  assumes "is_mask_vector m"
  shows "(vgetq_lane_s32 m i = all_ones \<longrightarrow>
            vgetq_lane_s32 (SelectUsingMask m t e) i = vgetq_lane_s32 t i)
       \<and> (vgetq_lane_s32 m i = 0 \<longrightarrow>
            vgetq_lane_s32 (SelectUsingMask m t e) i = vgetq_lane_s32 e i)
       \<and> (vgetq_lane_s32 m i = all_ones \<or> vgetq_lane_s32 m i = 0)
       \<and> SelectUsingMask m t e = BitOr (BitAnd m t) (BitAnd (BitNot m) e)"
proof (intro conjI impI)
  assume "vgetq_lane_s32 m i = all_ones"
  then show "vgetq_lane_s32 (SelectUsingMask m t e) i = vgetq_lane_s32 t i"
    by (simp add: lane_SelectUsingMask all_ones_def)
next
  assume "vgetq_lane_s32 m i = 0"
  then show "vgetq_lane_s32 (SelectUsingMask m t e) i = vgetq_lane_s32 e i"
    by (simp add: lane_SelectUsingMask)
next
  from assms have "is_mask_lane (vgetq_lane_s32 m i)"
    by (simp add: is_mask_vector_lane)
  then show "vgetq_lane_s32 m i = all_ones \<or> vgetq_lane_s32 m i = 0"
    by (simp add: is_mask_lane_def)
next
  show "SelectUsingMask m t e = BitOr (BitAnd m t) (BitAnd (BitNot m) e)"
    by (rule int32x4_eqI)
      (simp add: lane_SelectUsingMask lane_BitOr lane_BitAnd lane_BitNot xor_eq_or_disjoint)
qed

theorem SelectUsingMask_truth_table_witness:
  "is_mask_vector (MaskIfEqual (Dup 5) (Int32x4 5 3 5 9))
   \<and> MaskIfEqual (Dup 5) (Int32x4 5 3 5 9) = Int32x4 all_ones 0 all_ones 0
   \<and> vgetq_lane_s32 (SelectUsingMask (MaskIfEqual (Dup 5) (Int32x4 5 3 5 9)) (Dup 1) (Dup 0)) Lane0 = 1
   \<and> vgetq_lane_s32 (SelectUsingMask (MaskIfEqual (Dup 5) (Int32x4 5 3 5 9)) (Dup 1) (Dup 0)) Lane1 = 0"
proof -
  have m: "MaskIfEqual (Dup 5) (Int32x4 5 3 5 9) = Int32x4 all_ones 0 all_ones 0"
    by (simp add: MaskIfEqual_def Dup_def vdupq_n_s32_def vceqq_s32_def all_ones_def)
  have h: "is_mask_vector (MaskIfEqual (Dup 5) (Int32x4 5 3 5 9))"
    by (simp add: m is_mask_lane_def)
  have l0: "vgetq_lane_s32 (MaskIfEqual (Dup 5) (Int32x4 5 3 5 9)) Lane0 = all_ones"
    and l1: "vgetq_lane_s32 (MaskIfEqual (Dup 5) (Int32x4 5 3 5 9)) Lane1 = 0"
    by (simp_all add: m)
  have d: "vgetq_lane_s32 (Dup 1) Lane0 = 1" "vgetq_lane_s32 (Dup 0) Lane1 = 0"
    by (simp_all add: Dup_def lane_vdupq_n_s32)
  from SelectUsingMask_truth_table [OF h, of Lane0 "Dup 1" "Dup 0"]
    SelectUsingMask_truth_table [OF h, of Lane1 "Dup 1" "Dup 0"] h m l0 l1 d
  show ?thesis
    by metis
qed

section \<open>C5: comparisons produce well-formed masks\<close>

text \<open>
  Claim C5. For all inputs, every lane of the result of each of the eight comparison
  operations is all-1 bits or all-0 bits.
\<close>

theorem comparison_masks_well_formed:
  "is_mask_lane (vgetq_lane_s32 (MaskIfEqual a b) i)
   \<and> is_mask_lane (vgetq_lane_s32 (MaskIfNotEqual a b) i)
   \<and> is_mask_lane (vgetq_lane_s32 (MaskIfZero a) i)
   \<and> is_mask_lane (vgetq_lane_s32 (MaskIfNonZero a) i)
   \<and> is_mask_lane (vgetq_lane_s32 (MaskIfGreaterThan a b) i)
   \<and> is_mask_lane (vgetq_lane_s32 (MaskIfGreaterThanOrEqual a b) i)
   \<and> is_mask_lane (vgetq_lane_s32 (MaskIfLessThan a b) i)
   \<and> is_mask_lane (vgetq_lane_s32 (MaskIfLessThanOrEqual a b) i)"
  by (simp add: lane_MaskIf is_mask_lane_def all_ones_def)

section \<open>C6: SaturatingRoundingMultiplyByPOT\<close>

text \<open>
  Claim C6, as amended. For every exponent \<open>e\<close> from 1 to 31 the operation is, in
  every lane, a left shift by \<open>e\<close> clamped to the signed 32-bit range; for every
  \<open>e\<close> from -32 to -1 it is a right shift by \<open>-e\<close> rounded to nearest (ties toward
  positive infinity); there is no specialization for \<open>e = 0\<close>; and for \<open>e > 31\<close> or
  \<open>e < -32\<close> the shift intrinsic rejects the immediate, so the instantiation does
  not compile.
\<close>

theorem SaturatingRoundingMultiplyByPOT_in_range:
  "(1 \<le> e \<and> e \<le> 31 \<longrightarrow>
      (\<exists>r. SaturatingRoundingMultiplyByPOT e x = Inr r
         \<and> (\<forall>i. sint (vgetq_lane_s32 r i) = clamp_int32 (sint (vgetq_lane_s32 x i) * 2 ^ nat e))))
   \<and> (- 32 \<le> e \<and> e \<le> - 1 \<longrightarrow>
      (\<exists>r. SaturatingRoundingMultiplyByPOT e x = Inr r
         \<and> (\<forall>i. sint (vgetq_lane_s32 r i) = round (real_of_int (sint (vgetq_lane_s32 x i)) / 2 ^ nat (- e)))))
   \<and> SaturatingRoundingMultiplyByPOT 0 x = Inl NoSpecialization
   \<and> (31 < e \<or> e < - 32 \<longrightarrow> SaturatingRoundingMultiplyByPOT e x = Inl ImmediateOutOfRange)"
proof (intro conjI impI)
  assume e: "1 \<le> e \<and> e \<le> 31"
  show "\<exists>r. SaturatingRoundingMultiplyByPOT e x = Inr r
         \<and> (\<forall>i. sint (vgetq_lane_s32 r i) = clamp_int32 (sint (vgetq_lane_s32 x i) * 2 ^ nat e))"
    using e by (simp add: SaturatingRoundingMultiplyByPOT_pos lane_map_lanes sint_SignedSatQ push_bit_eq_mult)
next
  assume e: "- 32 \<le> e \<and> e \<le> - 1"
  then have n: "0 < nat (- e)" by simp
  show "\<exists>r. SaturatingRoundingMultiplyByPOT e x = Inr r
         \<and> (\<forall>i. sint (vgetq_lane_s32 r i) = round (real_of_int (sint (vgetq_lane_s32 x i)) / 2 ^ nat (- e)))"
  proof (intro exI conjI allI)
    from e show "SaturatingRoundingMultiplyByPOT e x =
        Inr (map_lanes (\<lambda>v. word_of_int (drop_bit (nat (- e)) (sint v + 2 ^ (nat (- e) - 1)))) x)"
      by (intro SaturatingRoundingMultiplyByPOT_neg) simp_all
    show "sint (vgetq_lane_s32
             (map_lanes (\<lambda>v. word_of_int (drop_bit (nat (- e)) (sint v + 2 ^ (nat (- e) - 1)))) x) i) =
           round (real_of_int (sint (vgetq_lane_s32 x i)) / 2 ^ nat (- e))" for i
      by (simp only: lane_map_lanes sint_rounding_shift [OF n])
  qed
next
  show "SaturatingRoundingMultiplyByPOT 0 x = Inl NoSpecialization"
    by (rule SaturatingRoundingMultiplyByPOT_zero)
next
  assume "31 < e \<or> e < - 32"
  then show "SaturatingRoundingMultiplyByPOT e x = Inl ImmediateOutOfRange"
    by (rule SaturatingRoundingMultiplyByPOT_out_of_range)
qed

theorem SaturatingRoundingMultiplyByPOT_in_range_witness:
  "(case SaturatingRoundingMultiplyByPOT 1 (Int32x4 int32_min (2 ^ 30) (- (2 ^ 30)) 5) of
      Inr r \<Rightarrow> sint (vgetq_lane_s32 r Lane0) = - (2 ^ 31) \<and> sint (vgetq_lane_s32 r Lane1) = 2 ^ 31 - 1
               \<and> sint (vgetq_lane_s32 r Lane3) = 10
    | Inl err \<Rightarrow> False)
   \<and> (case SaturatingRoundingMultiplyByPOT (- 1) (Int32x4 int32_min int32_max (- 3) 5) of
      Inr r \<Rightarrow> sint (vgetq_lane_s32 r Lane2) = - 1 \<and> sint (vgetq_lane_s32 r Lane3) = 3
    | Inl err \<Rightarrow> False)
   \<and> SaturatingRoundingMultiplyByPOT 32 (Int32x4 int32_min int32_max (- 3) 5) = Inl ImmediateOutOfRange"
proof -
  let ?x = "Int32x4 int32_min (2 ^ 30) (- (2 ^ 30)) 5"
  let ?y = "Int32x4 int32_min int32_max (- 3) 5"
  from SaturatingRoundingMultiplyByPOT_in_range [of 1 ?x]
  obtain r where r: "SaturatingRoundingMultiplyByPOT 1 ?x = Inr r"
    "\<And>i. sint (vgetq_lane_s32 r i) = clamp_int32 (sint (vgetq_lane_s32 ?x i) * 2 ^ nat 1)"
    by auto
  from r(2) [of Lane0] r(2) [of Lane1] r(2) [of Lane3]
  have 1: "sint (vgetq_lane_s32 r Lane0) = - (2 ^ 31) \<and> sint (vgetq_lane_s32 r Lane1) = 2 ^ 31 - 1
               \<and> sint (vgetq_lane_s32 r Lane3) = 10"
    by (simp add: clamp_int32_def int32_min_def)
  from SaturatingRoundingMultiplyByPOT_in_range [of "- 1" ?y]
  obtain s where s: "SaturatingRoundingMultiplyByPOT (- 1) ?y = Inr s"
    "\<And>i. sint (vgetq_lane_s32 s i) = round (real_of_int (sint (vgetq_lane_s32 ?y i)) / 2 ^ nat (- (- 1)))"
    by auto
  have n: "0 < nat (- (- 1 :: int))"
    by simp
  from s(2) [of Lane2] s(2) [of Lane3]
  have 2: "sint (vgetq_lane_s32 s Lane2) = - 1 \<and> sint (vgetq_lane_s32 s Lane3) = 3"
    unfolding round_div_pow2 [OF n] by simp
  from SaturatingRoundingMultiplyByPOT_in_range [of 32 ?y]
  have 3: "SaturatingRoundingMultiplyByPOT 32 ?y = Inl ImmediateOutOfRange"
    by simp
  from 1 2 3 show ?thesis
    by (simp only: r(1) s(1) sum.case simp_thms)
qed

text \<open>
  The claim as stated, for every positive exponent, fails at \<open>e = 32\<close>: a saturating
  left shift of 1 by 32 would be the maximum value in every lane, but
  \<^verbatim>\<open>vqshlq_n_s32(x, 32)\<close> is outside the immediate range 0 to 31.
\<close>

theorem SaturatingRoundingMultiplyByPOT_32_counterexample:
  "SaturatingRoundingMultiplyByPOT 32 (Dup 1) = Inl ImmediateOutOfRange
   \<and> SaturatingRoundingMultiplyByPOT 32 (Dup 1) \<noteq> Inr (map_lanes (saturating_shift_left 32) (Dup 1))"
  by (simp add: SaturatingRoundingMultiplyByPOT_def ImplSaturatingRoundingMultiplyByPOT_pos_def
      vqshlq_n_s32_def)

section \<open>C7: All and Any\<close>

text \<open>
  Claim C7. For every mask vector whose lanes are each all-1 or all-0, \<open>All\<close> is
  true exactly when every lane is all-1, \<open>Any\<close> is true exactly when some lane is
  all-1, and both are false when every lane is all-0.
\<close>

theorem All_Any_on_masks:
  assumes "is_mask_vector m"
  shows "(All_int32x4 m \<longleftrightarrow> (\<forall>i. vgetq_lane_s32 m i = all_ones))
       \<and> (Any m \<longleftrightarrow> (\<exists>i. vgetq_lane_s32 m i = all_ones))
       \<and> ((\<forall>i. vgetq_lane_s32 m i = 0) \<longrightarrow> \<not> All_int32x4 m \<and> \<not> Any m)"
proof (cases m)
  case (Int32x4 a b c d)
  have all: "(\<forall>i. P i) \<longleftrightarrow> P Lane0 \<and> P Lane1 \<and> P Lane2 \<and> P Lane3" for P
    by (metis lane.exhaust)
  have ex: "(\<exists>i. P i) \<longleftrightarrow> P Lane0 \<or> P Lane1 \<or> P Lane2 \<or> P Lane3" for P
    by (metis lane.exhaust)
  from assms show ?thesis
    by (auto simp add: Int32x4 all ex All_int32x4_def Any_def is_mask_lane_def all_ones_def)
qed

theorem All_Any_on_masks_witness:
  "is_mask_vector (Int32x4 all_ones 0 all_ones all_ones)
   \<and> \<not> All_int32x4 (Int32x4 all_ones 0 all_ones all_ones)
   \<and> Any (Int32x4 all_ones 0 all_ones all_ones)
   \<and> vgetq_lane_s32 (Int32x4 all_ones 0 all_ones all_ones) Lane1 \<noteq> all_ones"
proof -
  have h: "is_mask_vector (Int32x4 all_ones 0 all_ones all_ones)"
    by (simp add: is_mask_lane_def)
  have l1: "vgetq_lane_s32 (Int32x4 all_ones 0 all_ones all_ones) Lane1 \<noteq> all_ones"
    by (simp add: all_ones_def)
  have l0: "vgetq_lane_s32 (Int32x4 all_ones 0 all_ones all_ones) Lane0 = all_ones"
    by simp
  from All_Any_on_masks [OF h] h l0 l1 show ?thesis
    by blast
qed

section \<open>C8: shifting left and back\<close>

text \<open>
  Claim C8. For every exponent \<open>e > 0\<close> and every \<open>x\<close> whose saturating left shift
  by \<open>e\<close> clamps no lane (the QC flag stays clear), applying the operation with
  exponent \<open>-e\<close> to the shifted vector returns a vector, and each of its lanes is
  within one unit of the lane of \<open>x\<close>; it is in fact \<open>x\<close> itself.
\<close>

theorem shift_round_trip:
  assumes "0 < e" "SaturatingRoundingMultiplyByPOT e x = Inr y" "\<not> vqshlq_n_s32_QC x e"
  shows "(\<exists>z. SaturatingRoundingMultiplyByPOT (- e) y = Inr z
            \<and> (\<forall>i. \<bar>sint (vgetq_lane_s32 z i) - sint (vgetq_lane_s32 x i)\<bar> \<le> 1))
         \<and> SaturatingRoundingMultiplyByPOT (- e) y = Inr x"
proof -
  have e: "1 \<le> e" "e \<le> 31"
    using assms(1,2) by (auto simp add: SaturatingRoundingMultiplyByPOT_out_of_range not_less [symmetric])
  then have n: "0 < nat e" "nat (- (- e)) = nat e"
    by simp_all
  from e assms(2) have y: "y = map_lanes (\<lambda>v. fst (SignedSatQ (push_bit (nat e) (sint v)))) x"
    by (simp add: SaturatingRoundingMultiplyByPOT_pos)
  from e have "SaturatingRoundingMultiplyByPOT (- e) y =
       Inr (map_lanes (\<lambda>v. word_of_int (drop_bit (nat (- (- e))) (sint v + 2 ^ (nat (- (- e)) - 1)))) y)"
    by (intro SaturatingRoundingMultiplyByPOT_neg) simp_all
  moreover have "map_lanes (\<lambda>v. word_of_int (drop_bit (nat (- (- e))) (sint v + 2 ^ (nat (- (- e)) - 1)))) y = x"
  proof (rule int32x4_eqI)
    fix i
    from assms(3) have "\<not> snd (SignedSatQ (push_bit (nat e) (sint (vgetq_lane_s32 x i))))"
      by (simp add: vqshlq_n_s32_QC_lane)
    from round_trip_lane [OF n(1) this]
    show "vgetq_lane_s32 (map_lanes (\<lambda>v. word_of_int (drop_bit (nat (- (- e))) (sint v + 2 ^ (nat (- (- e)) - 1)))) y) i
            = vgetq_lane_s32 x i"
      by (simp only: n(2) y lane_map_lanes)
  qed
  ultimately have "SaturatingRoundingMultiplyByPOT (- e) y = Inr x"
    by (simp only:)
  then show ?thesis
    by simp
qed

theorem shift_round_trip_witness:
  "\<not> vqshlq_n_s32_QC (Int32x4 (- 5) 7 (2 ^ 27 - 1) (- (2 ^ 27))) 4
   \<and> SaturatingRoundingMultiplyByPOT 4 (Int32x4 (- 5) 7 (2 ^ 27 - 1) (- (2 ^ 27)))
       = Inr (Int32x4 (- 80) 112 (2 ^ 31 - 16) (- (2 ^ 31)))
   \<and> SaturatingRoundingMultiplyByPOT (- 4) (Int32x4 (- 80) 112 (2 ^ 31 - 16) (- (2 ^ 31)))
       = Inr (Int32x4 (- 5) 7 (2 ^ 27 - 1) (- (2 ^ 27)))"
proof -
  let ?x = "Int32x4 (- 5) 7 (2 ^ 27 - 1) (- (2 ^ 27))"
  let ?y = "Int32x4 (- 80) 112 (2 ^ 31 - 16) (- (2 ^ 31))"
  have q: "\<not> vqshlq_n_s32_QC ?x 4"
    by (simp add: SignedSatQ_def)
  have s: "SaturatingRoundingMultiplyByPOT 4 ?x = Inr ?y"
    by (simp add: SaturatingRoundingMultiplyByPOT_def ImplSaturatingRoundingMultiplyByPOT_pos_def
        vqshlq_n_s32_def SignedSatQ_def)
  have p: "(0 :: int) < 4"
    by simp
  from shift_round_trip [OF p s q] q s show ?thesis
    by (simp only: simp_thms)
qed

section \<open>C9: Add, Sub and Neg wrap around\<close>

text \<open>
  Claim C9. For all inputs, \<open>Add\<close>, \<open>Sub\<close> and \<open>Neg\<close> compute in every lane plain
  two's-complement arithmetic modulo \<open>2^32\<close>: the signed value of the result lane is
  the exact sum, difference or negation wrapped into the signed 32-bit range (never
  clamped), and the lane is the word sum, difference or negation. In particular
  \<open>Neg\<close> of a lane holding the minimum value \<open>-2^31\<close> is \<open>-2^31\<close> again.
\<close>

theorem Add_Sub_Neg_wrap_around:
  "sint (vgetq_lane_s32 (Add a b) i) = wrap_int32 (sint (vgetq_lane_s32 a i) + sint (vgetq_lane_s32 b i))
   \<and> sint (vgetq_lane_s32 (Sub a b) i) = wrap_int32 (sint (vgetq_lane_s32 a i) - sint (vgetq_lane_s32 b i))
   \<and> sint (vgetq_lane_s32 (Neg a) i) = wrap_int32 (- sint (vgetq_lane_s32 a i))
   \<and> vgetq_lane_s32 (Add a b) i = vgetq_lane_s32 a i + vgetq_lane_s32 b i
   \<and> vgetq_lane_s32 (Sub a b) i = vgetq_lane_s32 a i - vgetq_lane_s32 b i
   \<and> vgetq_lane_s32 (Neg a) i = - vgetq_lane_s32 a i
   \<and> (vgetq_lane_s32 a i = int32_min \<longrightarrow> vgetq_lane_s32 (Neg a) i = int32_min)"
proof (intro conjI impI)
  show "sint (vgetq_lane_s32 (Add a b) i) = wrap_int32 (sint (vgetq_lane_s32 a i) + sint (vgetq_lane_s32 b i))"
    by (simp only: lane_Add sint_word_of_int_wrap)
  show "sint (vgetq_lane_s32 (Sub a b) i) = wrap_int32 (sint (vgetq_lane_s32 a i) - sint (vgetq_lane_s32 b i))"
    by (simp only: lane_Sub sint_word_of_int_wrap)
  show "sint (vgetq_lane_s32 (Neg a) i) = wrap_int32 (- sint (vgetq_lane_s32 a i))"
    by (simp only: lane_Neg sint_word_of_int_wrap)
  show "vgetq_lane_s32 (Add a b) i = vgetq_lane_s32 a i + vgetq_lane_s32 b i"
    by (simp add: lane_Add)
  show "vgetq_lane_s32 (Sub a b) i = vgetq_lane_s32 a i - vgetq_lane_s32 b i"
    by (simp add: lane_Sub)
  show neg: "vgetq_lane_s32 (Neg a) i = - vgetq_lane_s32 a i"
    by (simp add: lane_Neg)
  show "vgetq_lane_s32 (Neg a) i = int32_min" if "vgetq_lane_s32 a i = int32_min"
    by (simp add: neg that int32_min_def)
qed

theorem Add_Sub_Neg_wrap_around_witness:
  "vgetq_lane_s32 (Neg (Int32x4 7 int32_min 0 1)) Lane1 = int32_min
   \<and> sint int32_min = - (2 ^ 31)
   \<and> sint (vgetq_lane_s32 (Add (Dup int32_max) (Dup 1)) Lane0) = - (2 ^ 31)"
proof -
  have h: "vgetq_lane_s32 (Int32x4 7 int32_min 0 1) Lane1 = int32_min"
    by simp
  have d: "wrap_int32 (sint (vgetq_lane_s32 (Dup int32_max) Lane0) + sint (vgetq_lane_s32 (Dup 1) Lane0))
             = - (2 ^ 31)"
    by (simp add: Dup_def lane_vdupq_n_s32 int32_max_def wrap_int32_def)
  have s: "sint int32_min = - (2 ^ 31)"
    by (simp add: int32_min_def)
  from Add_Sub_Neg_wrap_around [of "Int32x4 7 int32_min 0 1" "Dup 0" Lane1] h
  have 1: "vgetq_lane_s32 (Neg (Int32x4 7 int32_min 0 1)) Lane1 = int32_min"
    by blast
  from Add_Sub_Neg_wrap_around [of "Dup int32_max" "Dup 1" Lane0]
  have "sint (vgetq_lane_s32 (Add (Dup int32_max) (Dup 1)) Lane0) =
          wrap_int32 (sint (vgetq_lane_s32 (Dup int32_max) Lane0) + sint (vgetq_lane_s32 (Dup 1) Lane0))"
    by (rule conjunct1)
  then have 2: "sint (vgetq_lane_s32 (Add (Dup int32_max) (Dup 1)) Lane0) = - (2 ^ 31)"
    unfolding d .
  from 1 s 2 show ?thesis
    by (simp only: simp_thms)
qed

section \<open>C10: the XOR form of SelectUsingMask\<close>

text \<open>
  Claim C10. For all \<open>m\<close>, \<open>t\<close> and \<open>e\<close>, well-formed mask or not, the XOR-based
  \<open>SelectUsingMask\<close> of the NEON backend equals the OR-based reference formula
  \<open>(m & t) | (~m & e)\<close>, and the two operands \<open>m & t\<close> and \<open>~m & e\<close> have no set
  bit in common.
\<close>

theorem SelectUsingMask_xor_is_or:
  "SelectUsingMask m t e = BitOr (BitAnd m t) (BitAnd (BitNot m) e)
   \<and> BitAnd (BitAnd m t) (BitAnd (BitNot m) e) = Dup 0"
proof
  show "SelectUsingMask m t e = BitOr (BitAnd m t) (BitAnd (BitNot m) e)"
    by (rule int32x4_eqI)
      (simp add: lane_SelectUsingMask lane_BitOr lane_BitAnd lane_BitNot xor_eq_or_disjoint)
  show "BitAnd (BitAnd m t) (BitAnd (BitNot m) e) = Dup 0"
    by (rule int32x4_eqI)
      (simp add: lane_BitAnd lane_BitNot Dup_def lane_vdupq_n_s32 and_not_disjoint)
qed

end
